theory Spec2Isabelle
  imports Complex_Main
begin

section \<open>geemap/colormaps.py: palettes sampled from a colormap engine\<close>

text \<open>
  The module is a thin layer over two external libraries: matplotlib (the colormap
  engine and the plotting backend) and python-box (the frozen container of the published
  catalog). Neither is part of the repository, so the engine is a parameter of every
  function below, and the few backend operations the module calls are stated with the
  behaviour the libraries document. Everything else follows \<^verbatim>\<open>colormaps.py\<close> line by line.
\<close>

subsection \<open>Errors\<close>

text \<open>
  The module catches nothing: every exception of the engine or of Python itself
  propagates. \<open>UnknownRampError\<close> is the engine's rejection of an unregistered name,
  \<open>InvalidClassCountError\<close> its rejection of a class count, \<open>RenderingError\<close> an
  exception of the plotting backend, \<open>TypeError\<close> Python's own (iterating over an
  object that is not iterable), \<open>BoxError\<close> a write to a frozen box and \<open>KeyError\<close>
  a missing key.
\<close>

datatype error =
    UnknownRampError
  | InvalidClassCountError
  | RenderingError
  | TypeError
  | BoxError
  | KeyError

subsection \<open>The colormap engine\<close>

text \<open>
  A colormap object as \<open>get_palette\<close> uses it: the attribute \<^verbatim>\<open>cmap.N\<close> and the call
  \<^verbatim>\<open>cmap(i)\<close>. The colour \<^verbatim>\<open>cmap(i)\<close> is an RGBA tuple of floats; the module only hands
  it on to \<^verbatim>\<open>rgb2hex\<close>, so its type stays a parameter \<open>'c\<close>.
\<close>

record 'c colormap =
  cmap_N :: int
  cmap_call :: "int \<Rightarrow> 'c"

text \<open>
  The engine: \<^verbatim>\<open>plt.colormaps()\<close>, \<^verbatim>\<open>plt.cm.get_cmap(name, lut)\<close> (which
  \<^verbatim>\<open>plt.get_cmap\<close> aliases) and \<^verbatim>\<open>mpl.colors.rgb2hex\<close>. An omitted argument is \<open>None\<close>.
\<close>

record 'c engine =
  colormaps :: "string list"
  get_cmap :: "string option \<Rightarrow> int option \<Rightarrow> error + 'c colormap"
  rgb2hex :: "'c \<Rightarrow> string"

subsection \<open>\<^verbatim>\<open>get_palette\<close> and \<^verbatim>\<open>list_colormaps\<close>\<close>

text \<open>
  \<^verbatim>\<open>cmap = plt.cm.get_cmap(cmap_name, n_class)\<close>
  \<^verbatim>\<open>colors = [mpl.colors.rgb2hex(cmap(i))[1:] for i in range(cmap.N)]\<close>
  The slice \<^verbatim>\<open>[1:]\<close> drops the first character; \<^verbatim>\<open>range(N)\<close> is empty for \<open>N \<le> 0\<close>,
  as \<open>[0..N - 1]\<close> is.
\<close>

definition get_palette :: "'c engine \<Rightarrow> string option \<Rightarrow> int option \<Rightarrow> error + string list" where
  "get_palette e cmap_name n_class =
     (case get_cmap e cmap_name n_class of
        Inl err \<Rightarrow> Inl err
      | Inr cmap \<Rightarrow> Inr (map (\<lambda>i. drop 1 (rgb2hex e (cmap_call cmap i))) [0..cmap_N cmap - 1]))"

definition list_colormaps :: "'c engine \<Rightarrow> string list" where
  "list_colormaps e = colormaps e"

subsection \<open>Python's \<^verbatim>\<open>str\<close> on integers and \<^verbatim>\<open>str.zfill\<close>\<close>

fun str_nat :: "nat \<Rightarrow> string" where
  "str_nat n =
     (if n < 10 then [''0123456789'' ! n]
      else str_nat (n div 10) @ [''0123456789'' ! (n mod 10)])"

declare str_nat.simps [simp del]

definition str :: "int \<Rightarrow> string" where
  "str i = (if i < 0 then CHR ''-'' # str_nat (nat (- i)) else str_nat (nat i))"

text \<open>
  \<^verbatim>\<open>s.zfill(width)\<close>: \<open>s\<close> itself when it is already \<open>width\<close> long, otherwise zeros on
  the left, after a leading sign if there is one.
\<close>

definition zfill :: "string \<Rightarrow> nat \<Rightarrow> string" where
  "zfill s width =
     (if width \<le> length s then s
      else (case s of
              [] \<Rightarrow> replicate width CHR ''0''
            | c # cs \<Rightarrow>
                if c = CHR ''+'' \<or> c = CHR ''-''
                then c # replicate (width - length s) CHR ''0'' @ cs
                else replicate (width - length s) CHR ''0'' @ s))"

subsection \<open>The palette catalog\<close>

text \<open>
  A value of \<^verbatim>\<open>__palette_dict\<close> is either a list of colour strings (the three literal
  entries) or a dict from class-count key to such a list (the entries the loop writes).
\<close>

datatype pyval =
    is_PList: PList (the_list: "string list")
  | is_PDict: PDict (the_dict: "string \<rightharpoonup> string list")

text \<open>The dict literal of lines 99 to 130, before the loop runs.\<close>

definition palette_dict0 :: "string \<rightharpoonup> pyval" where
  "palette_dict0 =
     [''ndvi'' \<mapsto> PList
        [''FFFFFF'', ''CE7E45'', ''DF923D'', ''F1B555'', ''FCD163'', ''99B718'',
         ''74A901'', ''66A000'', ''529400'', ''3E8601'', ''207401'', ''056201'',
         ''004C00'', ''023B01'', ''012E01'', ''011D01'', ''011301''],
      ''ndwi'' \<mapsto> PList
        [''#ece7f2'', ''#d0d1e6'', ''#a6bddb'', ''#74a9cf'', ''#3690c0'', ''#0570b0'',
         ''#045a8d'', ''#023858''],
      ''dem'' \<mapsto> PList [''006633'', ''E5FFCC'', ''662A00'', ''D8D8D8'', ''F5F5F5'']]"

text \<open>\<^verbatim>\<open>name = "n" + str(i).zfill(2)\<close>\<close>

definition class_key :: "int \<Rightarrow> string" where
  "class_key i = ''n'' @ zfill (str i) 2"

text \<open>
  The inner loop \<^verbatim>\<open>for i in range(3, 13)\<close>, over the counts still to do, with
  \<^verbatim>\<open>color_dict\<close> as accumulator. An exception of \<^verbatim>\<open>get_palette\<close> ends the loop (and the
  import of the module).
\<close>

fun color_dict_loop ::
  "'c engine \<Rightarrow> string \<Rightarrow> int list \<Rightarrow> (string \<rightharpoonup> string list) \<Rightarrow> error + (string \<rightharpoonup> string list)"
where
  "color_dict_loop e cmap_name [] color_dict = Inr color_dict"
| "color_dict_loop e cmap_name (i # rest) color_dict =
     (case get_palette e (Some cmap_name) (Some i) of
        Inl err \<Rightarrow> Inl err
      | Inr colors \<Rightarrow> color_dict_loop e cmap_name rest (color_dict(class_key i \<mapsto> colors)))"

text \<open>
  The outer loop \<^verbatim>\<open>for index, cmap_name in enumerate(list_colormaps())\<close> with its guard
  \<^verbatim>\<open>if index < len(list_colormaps())\<close>, which calls the enumerator again; the
  accumulator is \<^verbatim>\<open>__palette_dict\<close>.
\<close>

fun palette_dict_loop ::
  "'c engine \<Rightarrow> (nat \<times> string) list \<Rightarrow> (string \<rightharpoonup> pyval) \<Rightarrow> error + (string \<rightharpoonup> pyval)"
where
  "palette_dict_loop e [] pd = Inr pd"
| "palette_dict_loop e ((index, cmap_name) # rest) pd =
     (if index < length (list_colormaps e)
      then (case color_dict_loop e cmap_name [3..12] Map.empty of
              Inl err \<Rightarrow> Inl err
            | Inr color_dict \<Rightarrow> palette_dict_loop e rest (pd(cmap_name \<mapsto> PDict color_dict)))
      else palette_dict_loop e rest pd)"

text \<open>\<^verbatim>\<open>__palette_dict\<close> once the module-level loop has run.\<close>

definition palette_dict :: "'c engine \<Rightarrow> error + (string \<rightharpoonup> pyval)" where
  "palette_dict e = palette_dict_loop e (enumerate 0 (list_colormaps e)) palette_dict0"

subsection \<open>The published catalog: a frozen box\<close>

text \<open>
  \<^verbatim>\<open>palettes = Box(__palette_dict, frozen_box=True)\<close>. A box holds the items of the dict
  it was built from and the flag it was built with; reading an entry of the box reads the
  entry of the dict.
\<close>

record box =
  box_items :: "string \<rightharpoonup> pyval"
  frozen_box :: bool

definition Box :: "(string \<rightharpoonup> pyval) \<Rightarrow> bool \<Rightarrow> box" where
  "Box d frozen = \<lparr>box_items = d, frozen_box = frozen\<rparr>"

definition palettes :: "'c engine \<Rightarrow> error + box" where
  "palettes e =
     (case palette_dict e of
        Inl err \<Rightarrow> Inl err
      | Inr d \<Rightarrow> Inr (Box d True))"

text \<open>
  Modelled from the spec: the class \<^verbatim>\<open>Box\<close> of the python-box library is not under src/.
  The spec has the frozen catalog reject every write: an insertion, an update or a
  deletion fails and leaves the box as it was. \<open>box_setitem\<close> is \<^verbatim>\<open>b[k] = v\<close> (insert or
  update) and \<open>box_delitem\<close> is \<^verbatim>\<open>del b[k]\<close>; each returns the exception raised, if any,
  and the box after the attempt.
\<close>

definition box_setitem :: "box \<Rightarrow> string \<Rightarrow> pyval \<Rightarrow> error option \<times> box" where
  "box_setitem b k v =
     (if frozen_box b then (Some BoxError, b)
      else (None, b\<lparr>box_items := (box_items b)(k \<mapsto> v)\<rparr>))"

definition box_delitem :: "box \<Rightarrow> string \<Rightarrow> error option \<times> box" where
  "box_delitem b k =
     (if frozen_box b then (Some BoxError, b)
      else if box_items b k = None then (Some KeyError, b)
      else (None, b\<lparr>box_items := (box_items b)(k := None)\<rparr>))"

subsection \<open>\<^verbatim>\<open>plot_colormaps\<close>\<close>

text \<open>
  The plotting backend is matplotlib's, which is not part of the repository; the state it
  keeps is written out as far as \<^verbatim>\<open>plot_colormaps\<close> touches it. Python's floats are
  idealised as reals: nothing below depends on rounding, and the non-finite floats
  (infinities, NaN) are outside the model.

  An axes holds the image drawn on it (data, aspect and colormap) and whether its axis
  decorations are on. A figure holds its size, its axes from top to bottom, the margins
  set by \<^verbatim>\<open>subplots_adjust\<close> (top, bottom, left, right), the text labels placed on it
  (x, y, text) and whether it has been shown.
\<close>

record 'c axes =
  ax_image :: "(real list list \<times> string \<times> 'c colormap) option"
  ax_axis_on :: bool

record 'c figure =
  fig_size :: "real \<times> real"
  fig_axes :: "'c axes list"
  fig_adjust :: "(real \<times> real \<times> real \<times> real) option"
  fig_texts :: "(real \<times> real \<times> string) list"
  fig_shown :: bool

text \<open>
  What \<^verbatim>\<open>plt.subplots\<close> returns beside the figure: with the default \<^verbatim>\<open>squeeze=True\<close> and
  one column, a single Axes object for one row and an array of Axes for more. The
  numbers are positions in \<open>fig_axes\<close>.
\<close>

datatype axes_ref = OneAxes nat | AxesArray "nat list"

text \<open>
  \<^verbatim>\<open>plt.subplots(nrows=nrows, figsize=figsize)\<close> as matplotlib documents it. The figure
  is created first: a negative width or height is refused (\<^verbatim>\<open>ValueError\<close>: figure size
  must be positive finite). The grid comes next: the number of rows must be positive
  (a \<^verbatim>\<open>ValueError\<close> again). Then the axes are created blank with their decorations on,
  and the result is squeezed as described above.
\<close>

definition subplots :: "nat \<Rightarrow> real \<times> real \<Rightarrow> error + ('c figure \<times> axes_ref)" where
  "subplots nrows figsize =
     (if fst figsize < 0 \<or> snd figsize < 0 then Inl RenderingError
      else if nrows = 0 then Inl RenderingError
      else Inr (\<lparr>fig_size = figsize,
                 fig_axes = replicate nrows \<lparr>ax_image = None, ax_axis_on = True\<rparr>,
                 fig_adjust = None, fig_texts = [], fig_shown = False\<rparr>,
                if nrows = 1 then OneAxes 0 else AxesArray [0..<nrows]))"

text \<open>
  Python's iteration protocol on that result, as \<^verbatim>\<open>zip(axes, ...)\<close> and \<^verbatim>\<open>for ax in axes\<close>
  use it: an array yields its elements, an Axes object is not iterable.
\<close>

definition py_iter :: "axes_ref \<Rightarrow> error + nat list" where
  "py_iter axes = (case axes of OneAxes a \<Rightarrow> Inl TypeError | AxesArray axs \<Rightarrow> Inr axs)"

definition subplots_adjust :: "'c figure \<Rightarrow> real \<Rightarrow> real \<Rightarrow> real \<Rightarrow> real \<Rightarrow> 'c figure" where
  "subplots_adjust fig t b l r = fig\<lparr>fig_adjust := Some (t, b, l, r)\<rparr>"

definition imshow :: "'c figure \<Rightarrow> nat \<Rightarrow> real list list \<Rightarrow> string \<Rightarrow> 'c colormap \<Rightarrow> 'c figure" where
  "imshow fig ax X aspect cmap =
     fig\<lparr>fig_axes := (fig_axes fig)[ax := (fig_axes fig ! ax)\<lparr>ax_image := Some (X, aspect, cmap)\<rparr>]\<rparr>"

definition set_axis_off :: "nat \<Rightarrow> 'c figure \<Rightarrow> 'c figure" where
  "set_axis_off ax fig =
     fig\<lparr>fig_axes := (fig_axes fig)[ax := (fig_axes fig ! ax)\<lparr>ax_axis_on := False\<rparr>]\<rparr>"

definition fig_text :: "'c figure \<Rightarrow> real \<Rightarrow> real \<Rightarrow> string \<Rightarrow> 'c figure" where
  "fig_text fig x y s = fig\<lparr>fig_texts := fig_texts fig @ [(x, y, s)]\<rparr>"

definition plt_show :: "'c figure \<Rightarrow> 'c figure" where
  "plt_show fig = fig\<lparr>fig_shown := True\<rparr>"

text \<open>
  \<^verbatim>\<open>gradient = np.linspace(0, 1, 256)\<close> and \<^verbatim>\<open>gradient = np.vstack((gradient, gradient))\<close>:
  256 evenly spaced samples of the unit interval, stacked twice. The value depends on
  nothing else, so it is a constant here rather than a local of \<open>plot_colormaps\<close>.
\<close>

definition linspace :: "real \<Rightarrow> real \<Rightarrow> nat \<Rightarrow> real list" where
  "linspace start stop num = map (\<lambda>k. start + real k * (stop - start) / real (num - 1)) [0..<num]"

definition gradient :: "real list list" where
  "gradient = (let gradient = linspace 0 1 256 in [gradient, gradient])"

text \<open>
  The loop \<^verbatim>\<open>for ax, name in zip(axes, cmap_list)\<close>. \<open>get_position fig ax\<close> stands for
  \<^verbatim>\<open>ax.get_position().bounds\<close>, the box (x0, y0, width, height) the backend's layout
  gives the axes; \<^verbatim>\<open>plt.get_cmap(name)\<close> can raise, which ends the loop. The label is
  always placed with \<^verbatim>\<open>va="center", ha="right", fontsize=12\<close>, which the model leaves out.
\<close>

fun rows_loop ::
  "'c engine \<Rightarrow> ('c figure \<Rightarrow> nat \<Rightarrow> real \<times> real \<times> real \<times> real) \<Rightarrow> (nat \<times> string) list \<Rightarrow>
   'c figure \<Rightarrow> error + 'c figure"
where
  "rows_loop e get_position [] fig = Inr fig"
| "rows_loop e get_position ((ax, name) # rest) fig =
     (case get_cmap e (Some name) None of
        Inl err \<Rightarrow> Inl err
      | Inr cmap \<Rightarrow>
          (let fig1 = imshow fig ax gradient ''auto'' cmap;
               fig2 = set_axis_off ax fig1;
               (x0, y0, w, h) = get_position fig2 ax;
               x_text = x0 - 0.01;
               y_text = y0 + h / 2.0
           in rows_loop e get_position rest (fig_text fig2 x_text y_text name)))"

definition plot_colormaps ::
  "'c engine \<Rightarrow> ('c figure \<Rightarrow> nat \<Rightarrow> real \<times> real \<times> real \<times> real) \<Rightarrow> real \<Rightarrow> real \<Rightarrow> error + 'c figure"
where
  "plot_colormaps e get_position width height =
     (let cmap_list = list_colormaps e;
          nrows = length cmap_list
      in case subplots nrows (width, height * real nrows) of
           Inl err \<Rightarrow> Inl err
         | Inr (fig, axes) \<Rightarrow>
             (let fig1 = subplots_adjust fig 0.95 0.01 0.2 0.99
              in case py_iter axes of
                   Inl err \<Rightarrow> Inl err
                 | Inr axs \<Rightarrow>
                     (case rows_loop e get_position (zip axs cmap_list) fig1 of
                        Inl err \<Rightarrow> Inl err
                      | Inr fig2 \<Rightarrow>
                          (case py_iter axes of
                             Inl err \<Rightarrow> Inl err
                           | Inr axs' \<Rightarrow> Inr (plt_show (fold set_axis_off axs' fig2))))))"

subsection \<open>Hex colours\<close>

text \<open>A hex colour is six hexadecimal digits, \<^verbatim>\<open>[0-9A-Fa-f]{6}\<close>, with no leading marker.\<close>

definition hex_digit :: "char \<Rightarrow> bool" where
  "hex_digit c = (c \<in> set ''0123456789abcdefABCDEF'')"

definition hex_color :: "string \<Rightarrow> bool" where
  "hex_color s = (length s = 6 \<and> list_all hex_digit s)"

subsection \<open>A stub engine\<close>

text \<open>
  An engine for concrete runs: it registers the given names, resamples every ramp to the
  class count asked for (256 stops when none is given), has the stop index as colour and
  formats it as black or white.
\<close>

definition stub_engine :: "string list \<Rightarrow> int engine" where
  "stub_engine names =
     \<lparr>colormaps = names,
      get_cmap = (\<lambda>name lut.
         if (case name of None \<Rightarrow> True | Some r \<Rightarrow> r \<in> set names)
         then (case lut of
                 None \<Rightarrow> Inr \<lparr>cmap_N = 256, cmap_call = (\<lambda>i. i)\<rparr>
               | Some n \<Rightarrow>
                   if n \<le> 0 then Inl InvalidClassCountError
                   else Inr \<lparr>cmap_N = n, cmap_call = (\<lambda>i. i)\<rparr>)
         else Inl UnknownRampError),
      rgb2hex = (\<lambda>i. if even i then ''#000000'' else ''#ffffff'')\<rparr>"

text \<open>A layout for concrete runs: every axes spans the figure between the margins.\<close>

definition stub_position :: "int figure \<Rightarrow> nat \<Rightarrow> real \<times> real \<times> real \<times> real" where
  "stub_position fig ax = (0.2, 0.01, 0.79, 0.94)"


section \<open>Properties\<close>

subsection \<open>The sampler\<close>

lemma drop_marker_hex:
  assumes "\<forall>x. \<exists>s. rgb2hex e x = CHR ''#'' # s \<and> hex_color s"
  shows "hex_color (drop 1 (rgb2hex e x))"
proof -
  from assms obtain s where "rgb2hex e x = CHR ''#'' # s" and "hex_color s" by blast
  then show ?thesis by simp
qed

lemma get_palette_Inr:
  assumes "get_cmap e cmap_name n_class = Inr cm"
  shows "get_palette e cmap_name n_class =
           Inr (map (\<lambda>i. drop 1 (rgb2hex e (cmap_call cm i))) [0..cmap_N cm - 1])"
  using assms by (simp add: get_palette_def)

lemma get_palette_Inl:
  assumes "get_cmap e cmap_name n_class = Inl err"
  shows "get_palette e cmap_name n_class = Inl err"
  using assms by (simp add: get_palette_def)

lemma get_palette_succeeds_iff:
  "isl (get_palette e cmap_name n_class) = isl (get_cmap e cmap_name n_class)"
  by (simp add: get_palette_def split: sum.splits)

text \<open>
  C3. For a ramp name \<open>r\<close> the engine knows and a count \<open>c\<close> from 3 to 12,
  \<open>get_palette r c\<close> returns exactly \<open>c\<close> strings, each of six hexadecimal digits. The
  engine's side of the contract is the hypothesis: it resamples the ramp to \<open>c\<close> stops
  and formats a colour as \<^verbatim>\<open>#\<close> followed by six hexadecimal digits.
\<close>

theorem get_palette_class_count:
  assumes "r \<in> set (list_colormaps e)" and "3 \<le> c" and "c \<le> 12"
    and "get_cmap e (Some r) (Some c) = Inr cm" and "cmap_N cm = c"
    and "\<forall>x. \<exists>s. rgb2hex e x = CHR ''#'' # s \<and> hex_color s"
  shows "\<exists>colors. get_palette e (Some r) (Some c) = Inr colors \<and>
           int (length colors) = c \<and> list_all hex_color colors"
proof -
  let ?colors = "map (\<lambda>i. drop 1 (rgb2hex e (cmap_call cm i))) [0..c - 1]"
  from assms(4,5) have "get_palette e (Some r) (Some c) = Inr ?colors"
    by (simp add: get_palette_Inr)
  moreover from assms(2) have "int (length ?colors) = c" by simp
  moreover have "list_all hex_color ?colors"
    using drop_marker_hex [OF assms(6)] by (simp add: list_all_iff)
  ultimately show ?thesis by blast
qed

theorem get_palette_class_count_witness:
  "\<exists>colors. get_palette (stub_engine [''X'']) (Some ''X'') (Some 5) = Inr colors \<and>
     int (length colors) = 5 \<and> list_all hex_color colors"
proof -
  have 1: "''X'' \<in> set (list_colormaps (stub_engine [''X'']))"
    by (simp add: list_colormaps_def stub_engine_def)
  have 2: "get_cmap (stub_engine [''X'']) (Some ''X'') (Some 5) = Inr \<lparr>cmap_N = 5, cmap_call = (\<lambda>i. i)\<rparr>"
    by (simp add: stub_engine_def)
  have 3: "\<forall>x. \<exists>s. rgb2hex (stub_engine [''X'']) x = CHR ''#'' # s \<and> hex_color s"
    by (simp add: stub_engine_def hex_color_def hex_digit_def)
  show ?thesis
    using get_palette_class_count [OF 1 _ _ 2 _ 3] by simp
qed

text \<open>
  C8. A name the engine rejects makes \<open>get_palette\<close> fail with the engine's error:
  the sampler has no access to the catalog, and returns no colour list at all, whatever
  the name.
\<close>

theorem get_palette_unknown_ramp:
  assumes "cmap_name \<notin> set (list_colormaps e)"
    and "get_cmap e (Some cmap_name) n_class = Inl UnknownRampError"
  shows "get_palette e (Some cmap_name) n_class = Inl UnknownRampError"
  using assms(2) by (rule get_palette_Inl)

theorem get_palette_unknown_ramp_witness:
  "get_palette (stub_engine [''X'']) (Some ''ndvi'') (Some 5) = Inl UnknownRampError"
proof -
  have 1: "''ndvi'' \<notin> set (list_colormaps (stub_engine [''X'']))"
    by (simp add: list_colormaps_def stub_engine_def)
  have 2: "get_cmap (stub_engine [''X'']) (Some ''ndvi'') (Some 5) = Inl UnknownRampError"
    by (simp add: stub_engine_def)
  show ?thesis
    using get_palette_unknown_ramp [OF 1 2] .
qed

subsection \<open>The catalog build\<close>

lemma class_keys:
  "map class_key [3..12] =
     [''n03'', ''n04'', ''n05'', ''n06'', ''n07'', ''n08'', ''n09'', ''n10'', ''n11'', ''n12'']"
  by (simp add: class_key_def str_def zfill_def str_nat.simps)

lemma class_key_nth:
  assumes "3 \<le> c" and "c \<le> 12"
  shows "class_key c =
     [''n03'', ''n04'', ''n05'', ''n06'', ''n07'', ''n08'', ''n09'', ''n10'', ''n11'', ''n12'']
       ! nat (c - 3)"
proof -
  from assms have "map class_key [3..12] ! nat (c - 3) = class_key ([3..12] ! nat (c - 3))"
    by (intro nth_map) (simp del: upto_rec_numeral)
  also from assms have "[3..12] ! nat (c - 3) = c" by (simp del: upto_rec_numeral)
  finally show ?thesis by (simp only: class_keys)
qed

lemma color_dict_loop_other:
  "color_dict_loop e r cs d = Inr d' \<Longrightarrow> k \<notin> class_key ` set cs \<Longrightarrow> d' k = d k"
  by (induction cs arbitrary: d) (auto split: sum.splits)

lemma color_dict_loop_dom:
  "color_dict_loop e r cs d = Inr d' \<Longrightarrow> dom d' = dom d \<union> class_key ` set cs"
  by (induction cs arbitrary: d) (auto split: sum.splits)

lemma color_dict_loop_entry:
  "color_dict_loop e r cs d = Inr d' \<Longrightarrow> distinct (map class_key cs) \<Longrightarrow> c \<in> set cs \<Longrightarrow>
   \<exists>colors. get_palette e (Some r) (Some c) = Inr colors \<and> d' (class_key c) = Some colors"
proof (induction cs arbitrary: d)
  case Nil
  then show ?case by simp
next
  case (Cons i rest)
  from Cons.prems(1) obtain colors where
    gp: "get_palette e (Some r) (Some i) = Inr colors" and
    run: "color_dict_loop e r rest (d(class_key i \<mapsto> colors)) = Inr d'"
    by (auto split: sum.splits)
  show ?case
  proof (cases "c = i")
    case True
    from Cons.prems(2) have "class_key i \<notin> class_key ` set rest" by simp
    with run have "d' (class_key i) = Some colors"
      by (simp add: color_dict_loop_other)
    with gp True show ?thesis by simp
  next
    case False
    with Cons.prems have "c \<in> set rest" "distinct (map class_key rest)" by simp_all
    with Cons.IH run show ?thesis by blast
  qed
qed

lemma color_dict_loop_succeeds:
  "list_all (\<lambda>c. \<not> isl (get_palette e (Some r) (Some c))) cs \<Longrightarrow>
   \<not> isl (color_dict_loop e r cs d)"
  by (induction cs arbitrary: d) (auto split: sum.splits)

lemma palette_dict_loop_other:
  "palette_dict_loop e xs pd = Inr cat \<Longrightarrow> r \<notin> snd ` set xs \<Longrightarrow> cat r = pd r"
  by (induction e xs pd rule: palette_dict_loop.induct) (auto split: sum.splits if_splits)

lemma palette_dict_loop_entry:
  "palette_dict_loop e xs pd = Inr cat \<Longrightarrow>
   list_all (\<lambda>p. fst p < length (list_colormaps e)) xs \<Longrightarrow> r \<in> snd ` set xs \<Longrightarrow>
   \<exists>d. color_dict_loop e r [3..12] Map.empty = Inr d \<and> cat r = Some (PDict d)"
proof (induction xs arbitrary: pd)
  case Nil
  then show ?case by simp
next
  case (Cons x rest)
  obtain j name where x: "x = (j, name)" by (cases x)
  from Cons.prems(2) x have j: "j < length (list_colormaps e)"
    and rest: "list_all (\<lambda>p. fst p < length (list_colormaps e)) rest" by simp_all
  from Cons.prems(1) x j obtain d where
    d: "color_dict_loop e name [3..12] Map.empty = Inr d" and
    run: "palette_dict_loop e rest (pd(name \<mapsto> PDict d)) = Inr cat"
    by (auto split: sum.splits)
  show ?case
  proof (cases "r \<in> snd ` set rest")
    case True
    with Cons.IH run rest show ?thesis by blast
  next
    case False
    with Cons.prems(3) x have "name = r" by auto
    with run False d show ?thesis by (simp add: palette_dict_loop_other)
  qed
qed

lemma palette_dict_loop_succeeds:
  "list_all (\<lambda>p. list_all (\<lambda>c. \<not> isl (get_palette e (Some (snd p)) (Some c))) [3..12]) xs \<Longrightarrow>
   \<not> isl (palette_dict_loop e xs pd)"
proof (induction xs arbitrary: pd)
  case Nil
  then show ?case by simp
next
  case (Cons x rest)
  obtain j name where x: "x = (j, name)" by (cases x)
  from Cons.prems x have "\<not> isl (color_dict_loop e name [3..12] Map.empty)"
    by (simp del: upto_rec_numeral add: color_dict_loop_succeeds)
  then obtain d where "color_dict_loop e name [3..12] Map.empty = Inr d"
    by (cases "color_dict_loop e name [3..12] Map.empty") simp_all
  with Cons x show ?case by (simp del: upto_rec_numeral)
qed

lemma enumerate_in_range: "list_all (\<lambda>p. fst p < length xs) (enumerate 0 xs)"
  by (auto simp: list_all_iff in_set_enumerate_eq)

lemma snd_set_enumerate: "snd ` set (enumerate n xs) = set xs"
  by (metis map_snd_enumerate set_map)

lemma palette_dict_entry:
  assumes "palette_dict e = Inr cat" and "r \<in> set (list_colormaps e)"
  shows "\<exists>d. color_dict_loop e r [3..12] Map.empty = Inr d \<and> cat r = Some (PDict d)"
proof -
  from assms(2) have "r \<in> snd ` set (enumerate 0 (list_colormaps e))"
    by (simp add: snd_set_enumerate)
  with assms(1) show ?thesis
    unfolding palette_dict_def
    by (rule palette_dict_loop_entry [OF _ enumerate_in_range])
qed

lemma palette_dict_other:
  assumes "palette_dict e = Inr cat" and "r \<notin> set (list_colormaps e)"
  shows "cat r = palette_dict0 r"
proof -
  from assms(2) have "r \<notin> snd ` set (enumerate 0 (list_colormaps e))"
    by (simp add: snd_set_enumerate)
  with assms(1) show ?thesis
    unfolding palette_dict_def by (rule palette_dict_loop_other)
qed

text \<open>
  The build returns whenever the engine samples every name it enumerates at every count
  from 3 to 12; there is nothing else that can fail.
\<close>

lemma palette_dict_succeeds:
  assumes "\<forall>r\<in>set (list_colormaps e). \<forall>c\<in>{3..12}. \<not> isl (get_cmap e (Some r) (Some c))"
  shows "\<exists>cat. palette_dict e = Inr cat"
proof -
  from assms have
    "list_all (\<lambda>p. list_all (\<lambda>c. \<not> isl (get_palette e (Some (snd p)) (Some c))) [3..12])
       (enumerate 0 (list_colormaps e))"
    by (auto simp: list_all_iff get_palette_succeeds_iff in_set_enumerate_eq)
  then have "\<not> isl (palette_dict e)"
    unfolding palette_dict_def by (rule palette_dict_loop_succeeds)
  then show ?thesis by (cases "palette_dict e") simp_all
qed

lemma palettes_Inr:
  "palettes e = Inr p \<Longrightarrow> palette_dict e = Inr (box_items p) \<and> frozen_box p"
  by (auto simp: palettes_def Box_def split: sum.splits)

lemmas stub_run =
  stub_engine_def palettes_def palette_dict_def list_colormaps_def get_palette_def Box_def
  palette_dict0_def class_key_def str_def zfill_def str_nat.simps enumerate_eq_zip

text \<open>
  C4. For a name \<open>r\<close> the engine enumerates and a count \<open>c\<close> from 3 to 12, the catalog
  entry of \<open>r\<close> is a dict whose value at the class-count key of \<open>c\<close> (\<^verbatim>\<open>n05\<close> for 5) is the
  list a call \<open>get_palette r c\<close> returns.
\<close>

theorem catalog_matches_sampling:
  assumes "palettes e = Inr p" and "r \<in> set (list_colormaps e)" and "3 \<le> c" and "c \<le> 12"
  shows "\<exists>d colors. box_items p r = Some (PDict d) \<and>
           get_palette e (Some r) (Some c) = Inr colors \<and>
           d (class_key c) = Some colors \<and>
           class_key c =
             [''n03'', ''n04'', ''n05'', ''n06'', ''n07'', ''n08'', ''n09'', ''n10'', ''n11'', ''n12'']
               ! nat (c - 3)"
proof -
  from assms(1) have "palette_dict e = Inr (box_items p)" by (simp add: palettes_Inr)
  with assms(2) obtain d where
    d: "color_dict_loop e r [3..12] Map.empty = Inr d" and
    entry: "box_items p r = Some (PDict d)"
    using palette_dict_entry by blast
  have "distinct (map class_key [3..12])" by (simp only: class_keys) simp
  moreover from assms(3,4) have "c \<in> set [3..12]" by (simp del: upto_rec_numeral)
  ultimately obtain colors where
    "get_palette e (Some r) (Some c) = Inr colors" and "d (class_key c) = Some colors"
    using color_dict_loop_entry [OF d] by blast
  with entry class_key_nth [OF assms(3,4)] show ?thesis by blast
qed

theorem catalog_matches_sampling_witness:
  "\<exists>d colors. box_items (projr (palettes (stub_engine [''X'']))) ''X'' = Some (PDict d) \<and>
     get_palette (stub_engine [''X'']) (Some ''X'') (Some 5) = Inr colors \<and>
     d ''n05'' = Some colors"
proof -
  have 1: "palettes (stub_engine [''X'']) = Inr (projr (palettes (stub_engine [''X''])))"
    by (simp add: stub_run)
  have 2: "''X'' \<in> set (list_colormaps (stub_engine [''X'']))"
    by (simp add: list_colormaps_def stub_engine_def)
  have 3: "class_key 5 = ''n05''"
    by (simp add: class_key_def str_def zfill_def str_nat.simps)
  from catalog_matches_sampling [OF 1 2, of 5] show ?thesis
    by (simp only: 3) auto
qed

text \<open>
  C7. For a name the engine enumerates, the keys of its catalog entry are exactly
  \<^verbatim>\<open>n03\<close> to \<^verbatim>\<open>n12\<close>.
\<close>

theorem catalog_class_count_keys:
  assumes "palettes e = Inr p" and "r \<in> set (list_colormaps e)"
  shows "\<exists>d. box_items p r = Some (PDict d) \<and>
           dom d =
             {''n03'', ''n04'', ''n05'', ''n06'', ''n07'', ''n08'', ''n09'', ''n10'', ''n11'', ''n12''}"
proof -
  from assms(1) have "palette_dict e = Inr (box_items p)" by (simp add: palettes_Inr)
  with assms(2) obtain d where
    d: "color_dict_loop e r [3..12] Map.empty = Inr d" and
    entry: "box_items p r = Some (PDict d)"
    using palette_dict_entry by blast
  from d have "dom d = set (map class_key [3..12])"
    by (simp del: upto_rec_numeral add: color_dict_loop_dom)
  then have
    "dom d =
       {''n03'', ''n04'', ''n05'', ''n06'', ''n07'', ''n08'', ''n09'', ''n10'', ''n11'', ''n12''}"
    by (simp only: class_keys) simp
  with entry show ?thesis by blast
qed

theorem catalog_class_count_keys_witness:
  "\<exists>d. box_items (projr (palettes (stub_engine [''X'', ''Y'']))) ''Y'' = Some (PDict d) \<and>
     dom d =
       {''n03'', ''n04'', ''n05'', ''n06'', ''n07'', ''n08'', ''n09'', ''n10'', ''n11'', ''n12''}"
proof -
  have 1: "palettes (stub_engine [''X'', ''Y'']) = Inr (projr (palettes (stub_engine [''X'', ''Y''])))"
    by (simp add: stub_run)
  have 2: "''Y'' \<in> set (list_colormaps (stub_engine [''X'', ''Y'']))"
    by (simp add: list_colormaps_def stub_engine_def)
  from catalog_class_count_keys [OF 1 2] show ?thesis .
qed

text \<open>
  C1, as the spec states it, fails: an engine that registers \<^verbatim>\<open>dem\<close> beside \<^verbatim>\<open>X\<close> leaves
  a dict at \<^verbatim>\<open>dem\<close>, not the literal list. The literal entries are written first (they are
  the dict literal) and the loop over the engine's names writes after them.
\<close>

theorem hand_authored_precedence_counterexample:
  "\<not> isl (palettes (stub_engine [''X'', ''dem''])) \<and>
   ''dem'' \<in> set (list_colormaps (stub_engine [''X'', ''dem''])) \<and>
   box_items (projr (palettes (stub_engine [''X'', ''dem'']))) ''dem'' \<noteq>
     Some (PList [''006633'', ''E5FFCC'', ''662A00'', ''D8D8D8'', ''F5F5F5''])"
  by (simp add: stub_run)

text \<open>
  C1, amended. When a name the engine enumerates is one of \<^verbatim>\<open>ndvi\<close>, \<^verbatim>\<open>ndwi\<close> and \<^verbatim>\<open>dem\<close>,
  the entry derived from the engine takes precedence: the catalog maps the name to the
  dict the inner loop builds for it, not to the literal list.
\<close>

theorem engine_entry_precedence:
  assumes "palettes e = Inr p" and "r \<in> set (list_colormaps e)"
    and "r \<in> {''ndvi'', ''ndwi'', ''dem''}"
  shows "\<exists>d. color_dict_loop e r [3..12] Map.empty = Inr d \<and>
           box_items p r = Some (PDict d) \<and> box_items p r \<noteq> palette_dict0 r"
proof -
  from assms(1) have "palette_dict e = Inr (box_items p)" by (simp add: palettes_Inr)
  with assms(2) obtain d where
    d: "color_dict_loop e r [3..12] Map.empty = Inr d" and
    entry: "box_items p r = Some (PDict d)"
    using palette_dict_entry by blast
  from assms(3) have "\<exists>colors. palette_dict0 r = Some (PList colors)"
    by (auto simp: palette_dict0_def)
  with entry have "box_items p r \<noteq> palette_dict0 r" by auto
  with d entry show ?thesis by blast
qed

theorem engine_entry_precedence_witness:
  "\<exists>d. color_dict_loop (stub_engine [''ndwi'']) ''ndwi'' [3..12] Map.empty = Inr d \<and>
     box_items (projr (palettes (stub_engine [''ndwi'']))) ''ndwi'' = Some (PDict d) \<and>
     box_items (projr (palettes (stub_engine [''ndwi'']))) ''ndwi'' \<noteq> palette_dict0 ''ndwi''"
proof -
  have 1: "palettes (stub_engine [''ndwi'']) = Inr (projr (palettes (stub_engine [''ndwi''])))"
    by (simp add: stub_run)
  have 2: "''ndwi'' \<in> set (list_colormaps (stub_engine [''ndwi'']))"
    by (simp add: list_colormaps_def stub_engine_def)
  have 3: "''ndwi'' \<in> {''ndvi'', ''ndwi'', ''dem''}" by simp
  from engine_entry_precedence [OF 1 2 3] show ?thesis .
qed

text \<open>
  C6, as the spec states it, fails for the same reason: with an engine that registers
  \<^verbatim>\<open>ndvi\<close>, the entry \<^verbatim>\<open>ndvi\<close> of the catalog is a dict keyed by class count.
\<close>

theorem ndvi_flat_counterexample:
  "\<not> isl (palettes (stub_engine [''ndvi''])) \<and>
   is_PDict (the (box_items (projr (palettes (stub_engine [''ndvi'']))) ''ndvi'')) \<and>
   box_items (projr (palettes (stub_engine [''ndvi'']))) ''ndvi'' \<noteq>
     Some (PList
       [''FFFFFF'', ''CE7E45'', ''DF923D'', ''F1B555'', ''FCD163'', ''99B718'',
        ''74A901'', ''66A000'', ''529400'', ''3E8601'', ''207401'', ''056201'',
        ''004C00'', ''023B01'', ''012E01'', ''011D01'', ''011301''])"
  by (simp add: stub_run)

text \<open>
  C6, amended. When the engine enumerates no ramp named \<^verbatim>\<open>ndvi\<close>, the entry \<^verbatim>\<open>ndvi\<close> of
  the catalog is the literal list of 17 colour strings, whatever the engine samples.
\<close>

theorem ndvi_flat:
  assumes "palettes e = Inr p" and "''ndvi'' \<notin> set (list_colormaps e)"
  shows "box_items p ''ndvi'' =
           Some (PList
             [''FFFFFF'', ''CE7E45'', ''DF923D'', ''F1B555'', ''FCD163'', ''99B718'',
              ''74A901'', ''66A000'', ''529400'', ''3E8601'', ''207401'', ''056201'',
              ''004C00'', ''023B01'', ''012E01'', ''011D01'', ''011301'']) \<and>
         length (the_list (the (box_items p ''ndvi''))) = 17"
proof -
  from assms(1) have "palette_dict e = Inr (box_items p)" by (simp add: palettes_Inr)
  then have "box_items p ''ndvi'' = palette_dict0 ''ndvi''"
    using assms(2) by (rule palette_dict_other)
  then show ?thesis by (simp add: palette_dict0_def)
qed

theorem ndvi_flat_witness:
  "box_items (projr (palettes (stub_engine [''X'', ''Y'']))) ''ndvi'' =
     Some (PList
       [''FFFFFF'', ''CE7E45'', ''DF923D'', ''F1B555'', ''FCD163'', ''99B718'',
        ''74A901'', ''66A000'', ''529400'', ''3E8601'', ''207401'', ''056201'',
        ''004C00'', ''023B01'', ''012E01'', ''011D01'', ''011301'']) \<and>
   length (the_list (the (box_items (projr (palettes (stub_engine [''X'', ''Y'']))) ''ndvi''))) = 17"
proof -
  have 1: "palettes (stub_engine [''X'', ''Y'']) = Inr (projr (palettes (stub_engine [''X'', ''Y''])))"
    by (simp add: stub_run)
  have 2: "''ndvi'' \<notin> set (list_colormaps (stub_engine [''X'', ''Y'']))"
    by (simp add: list_colormaps_def stub_engine_def)
  from ndvi_flat [OF 1 2] show ?thesis .
qed

text \<open>
  C2 fails on the literal entry \<^verbatim>\<open>ndwi\<close>: in the catalog built over an engine that does not
  register that name, its eight strings are seven characters long and start with the marker
  \<^verbatim>\<open>#\<close>, which \<open>get_palette\<close> strips and the entries \<^verbatim>\<open>ndvi\<close> and \<^verbatim>\<open>dem\<close> do not have.
\<close>

theorem ndwi_entry_keeps_marker:
  "\<not> isl (palettes (stub_engine [''X''])) \<and>
   box_items (projr (palettes (stub_engine [''X'']))) ''ndwi'' =
     Some (PList [''#ece7f2'', ''#d0d1e6'', ''#a6bddb'', ''#74a9cf'', ''#3690c0'', ''#0570b0'',
                  ''#045a8d'', ''#023858'']) \<and>
   \<not> hex_color ''#ece7f2'' \<and> length ''#ece7f2'' = 7 \<and> \<not> hex_digit (hd ''#ece7f2'')"
  by (simp add: stub_run hex_color_def hex_digit_def)

subsection \<open>The frozen box\<close>

text \<open>
  C5. Once the catalog is built, every write to \<open>palettes\<close> (inserting or updating an entry
  with \<^verbatim>\<open>palettes[k] = v\<close>, deleting one with \<^verbatim>\<open>del palettes[k]\<close>) raises \<open>BoxError\<close> and leaves
  the box as it was.
\<close>

theorem palettes_frozen:
  assumes "palettes e = Inr p"
  shows "box_setitem p k v = (Some BoxError, p) \<and> box_delitem p k = (Some BoxError, p)"
proof -
  from assms have "frozen_box p" by (simp add: palettes_Inr)
  then show ?thesis by (simp add: box_setitem_def box_delitem_def)
qed

theorem palettes_frozen_witness:
  "box_setitem (projr (palettes (stub_engine [''X'']))) ''ndvi'' (PList []) =
     (Some BoxError, projr (palettes (stub_engine [''X'']))) \<and>
   box_delitem (projr (palettes (stub_engine [''X'']))) ''ndvi'' =
     (Some BoxError, projr (palettes (stub_engine [''X''])))"
proof -
  have 1: "palettes (stub_engine [''X'']) = Inr (projr (palettes (stub_engine [''X''])))"
    by (simp add: stub_run)
  from palettes_frozen [OF 1] show ?thesis .
qed

subsection \<open>Rendering all ramps\<close>

lemma rows_loop_frame:
  "rows_loop e gp zs fig = Inr fig' \<Longrightarrow>
   fig_size fig' = fig_size fig \<and> fig_adjust fig' = fig_adjust fig \<and>
   fig_shown fig' = fig_shown fig \<and> length (fig_axes fig') = length (fig_axes fig) \<and>
   map (snd \<circ> snd) (fig_texts fig') = map (snd \<circ> snd) (fig_texts fig) @ map snd zs"
proof (induction zs arbitrary: fig)
  case Nil
  then show ?case by simp
next
  case (Cons z rest)
  obtain ax name where z: "z = (ax, name)" by (cases z)
  from Cons.prems z obtain cm x y where
    "rows_loop e gp rest
       (fig_text (set_axis_off ax (imshow fig ax gradient ''auto'' cm)) x y name) = Inr fig'"
    by (auto simp: Let_def split: sum.splits prod.splits)
  from Cons.IH [OF this] z show ?case
    by (simp add: fig_text_def set_axis_off_def imshow_def)
qed

lemma rows_loop_other:
  "rows_loop e gp zs fig = Inr fig' \<Longrightarrow> i \<notin> fst ` set zs \<Longrightarrow>
   fig_axes fig' ! i = fig_axes fig ! i"
proof (induction zs arbitrary: fig)
  case Nil
  then show ?case by simp
next
  case (Cons z rest)
  obtain ax name where z: "z = (ax, name)" by (cases z)
  from Cons.prems(1) z obtain cm x y where
    run: "rows_loop e gp rest
       (fig_text (set_axis_off ax (imshow fig ax gradient ''auto'' cm)) x y name) = Inr fig'"
    by (auto simp: Let_def split: sum.splits prod.splits)
  from Cons.prems(2) z have "i \<noteq> ax" and "i \<notin> fst ` set rest" by auto
  with Cons.IH [OF run] show ?case
    by (simp add: fig_text_def set_axis_off_def imshow_def)
qed

lemma rows_loop_row:
  "rows_loop e gp zs fig = Inr fig' \<Longrightarrow> distinct (map fst zs) \<Longrightarrow> (ax, name) \<in> set zs \<Longrightarrow>
   ax < length (fig_axes fig) \<Longrightarrow>
   \<exists>cm. get_cmap e (Some name) None = Inr cm \<and>
        ax_image (fig_axes fig' ! ax) = Some (gradient, ''auto'', cm) \<and>
        \<not> ax_axis_on (fig_axes fig' ! ax)"
proof (induction zs arbitrary: fig)
  case Nil
  then show ?case by simp
next
  case (Cons z rest)
  obtain a n where z: "z = (a, n)" by (cases z)
  from Cons.prems(1) z obtain cm x y where
    cm: "get_cmap e (Some n) None = Inr cm" and
    run: "rows_loop e gp rest
       (fig_text (set_axis_off a (imshow fig a gradient ''auto'' cm)) x y n) = Inr fig'"
    by (auto simp: Let_def split: sum.splits prod.splits)
  let ?fig1 = "fig_text (set_axis_off a (imshow fig a gradient ''auto'' cm)) x y n"
  have len: "length (fig_axes ?fig1) = length (fig_axes fig)"
    by (simp add: fig_text_def set_axis_off_def imshow_def)
  show ?case
  proof (cases "(ax, name) \<in> set rest")
    case True
    from Cons.prems(2) have "distinct (map fst rest)" by simp
    with Cons.IH [OF run _ True] Cons.prems(4) len show ?thesis by simp
  next
    case False
    with Cons.prems(3) z have eq: "a = ax" "n = name" by simp_all
    from Cons.prems(2) z eq have "ax \<notin> fst ` set rest" by simp
    with run eq have "fig_axes fig' ! ax = fig_axes ?fig1 ! ax"
      by (simp add: rows_loop_other)
    with Cons.prems(4) cm eq show ?thesis
      by (simp add: fig_text_def set_axis_off_def imshow_def)
  qed
qed

lemma rows_loop_succeeds:
  "list_all (\<lambda>z. \<not> isl (get_cmap e (Some (snd z)) None)) zs \<Longrightarrow> \<not> isl (rows_loop e gp zs fig)"
proof (induction zs arbitrary: fig)
  case Nil
  then show ?case by simp
next
  case (Cons z rest)
  obtain ax name where z: "z = (ax, name)" by (cases z)
  from Cons.prems z obtain cm where "get_cmap e (Some name) None = Inr cm"
    by (cases "get_cmap e (Some name) None") simp_all
  with Cons z show ?case
    by (simp add: Let_def split: prod.splits)
qed

lemma fold_set_axis_off_frame:
  "fig_size (fold set_axis_off axs fig) = fig_size fig \<and>
   fig_texts (fold set_axis_off axs fig) = fig_texts fig \<and>
   length (fig_axes (fold set_axis_off axs fig)) = length (fig_axes fig)"
  by (induction axs arbitrary: fig) (simp_all add: set_axis_off_def)

lemma set_axis_off_image:
  "ax_image (fig_axes (set_axis_off a fig) ! i) = ax_image (fig_axes fig ! i)"
proof (cases "a < length (fig_axes fig)")
  case True
  then show ?thesis by (simp add: set_axis_off_def nth_list_update)
next
  case False
  then have "(fig_axes fig)[a := (fig_axes fig ! a)\<lparr>ax_axis_on := False\<rparr>] = fig_axes fig"
    by (intro list_update_beyond) simp
  then show ?thesis by (simp add: set_axis_off_def)
qed

lemma fold_set_axis_off_image:
  "ax_image (fig_axes (fold set_axis_off axs fig) ! i) = ax_image (fig_axes fig ! i)"
  by (induction axs arbitrary: fig) (simp_all add: set_axis_off_image)

lemma plot_colormaps_two_rows:
  assumes "2 \<le> length (list_colormaps e)" and "0 < width" and "0 < height"
  shows "plot_colormaps e gp width height =
     (case rows_loop e gp (zip [0..<length (list_colormaps e)] (list_colormaps e))
             (subplots_adjust
                \<lparr>fig_size = (width, height * real (length (list_colormaps e))),
                 fig_axes = replicate (length (list_colormaps e)) \<lparr>ax_image = None, ax_axis_on = True\<rparr>,
                 fig_adjust = None, fig_texts = [], fig_shown = False\<rparr>
                0.95 0.01 0.2 0.99) of
        Inl err \<Rightarrow> Inl err
      | Inr fig' \<Rightarrow> Inr (plt_show (fold set_axis_off [0..<length (list_colormaps e)] fig')))"
proof -
  from assms(2,3) have "\<not> width < 0" and "\<not> height * real (length (list_colormaps e)) < 0"
    by (simp_all add: not_less)
  with assms(1) show ?thesis
    by (auto simp: plot_colormaps_def subplots_def py_iter_def Let_def split: sum.splits)
qed

lemma plot_colormaps_succeeds:
  assumes "2 \<le> length (list_colormaps e)" and "0 < width" and "0 < height"
    and "list_all (\<lambda>name. \<not> isl (get_cmap e (Some name) None)) (list_colormaps e)"
  shows "\<not> isl (plot_colormaps e gp width height)"
proof -
  from assms(4) have
    "list_all (\<lambda>z. \<not> isl (get_cmap e (Some (snd z)) None))
       (zip [0..<length (list_colormaps e)] (list_colormaps e))"
    by (auto simp: list_all_iff dest: set_zip_rightD)
  then have "\<not> isl (rows_loop e gp (zip [0..<length (list_colormaps e)] (list_colormaps e))
      (subplots_adjust
         \<lparr>fig_size = (width, height * real (length (list_colormaps e))),
          fig_axes = replicate (length (list_colormaps e)) \<lparr>ax_image = None, ax_axis_on = True\<rparr>,
          fig_adjust = None, fig_texts = [], fig_shown = False\<rparr>
         0.95 0.01 0.2 0.99))"
    by (rule rows_loop_succeeds)
  then show ?thesis
    by (auto simp: plot_colormaps_two_rows [OF assms(1,2,3)] split: sum.splits)
qed

text \<open>
  With at least two ramp names, each resolved by the engine, and a positive width and
  height, \<open>plot_colormaps\<close> does build the figure the spec describes: its height is
  \<open>height\<close> times the number of names, and there is one row per name in enumeration
  order, row \<open>i\<close> showing the gradient through the colormap of the \<open>i\<close>-th name, with the
  names as labels in that order.
\<close>

lemma plot_colormaps_rows:
  assumes "2 \<le> length (list_colormaps e)" and "0 < width" and "0 < height"
    and "list_all (\<lambda>name. \<not> isl (get_cmap e (Some name) None)) (list_colormaps e)"
  shows "\<exists>fig. plot_colormaps e gp width height = Inr fig \<and>
           fig_size fig = (width, height * real (length (list_colormaps e))) \<and>
           map ax_image (fig_axes fig) =
             map (\<lambda>name. Some (gradient, ''auto'', projr (get_cmap e (Some name) None)))
               (list_colormaps e) \<and>
           map (snd \<circ> snd) (fig_texts fig) = list_colormaps e"
proof -
  let ?names = "list_colormaps e"
  let ?n = "length ?names"
  let ?blank = "subplots_adjust
      \<lparr>fig_size = (width, height * real ?n),
       fig_axes = replicate ?n \<lparr>ax_image = None, ax_axis_on = True\<rparr>,
       fig_adjust = None, fig_texts = [], fig_shown = False\<rparr> 0.95 0.01 0.2 0.99"
  let ?zs = "zip [0..<?n] ?names"
  from assms(4) have "list_all (\<lambda>z. \<not> isl (get_cmap e (Some (snd z)) None)) ?zs"
    by (auto simp: list_all_iff dest: set_zip_rightD)
  then have "\<not> isl (rows_loop e gp ?zs ?blank)" by (rule rows_loop_succeeds)
  then obtain fig' where run: "rows_loop e gp ?zs ?blank = Inr fig'"
    by (cases "rows_loop e gp ?zs ?blank") simp_all
  let ?fig = "plt_show (fold set_axis_off [0..<?n] fig')"
  from run have res: "plot_colormaps e gp width height = Inr ?fig"
    by (simp add: plot_colormaps_two_rows [OF assms(1,2,3)])
  from rows_loop_frame [OF run] have
    size: "fig_size fig' = (width, height * real ?n)" and
    len: "length (fig_axes fig') = ?n" and
    texts: "map (snd \<circ> snd) (fig_texts fig') = ?names"
    by (simp_all add: subplots_adjust_def)
  have "fig_size ?fig = (width, height * real ?n)"
    using size by (simp add: plt_show_def fold_set_axis_off_frame)
  moreover have "map (snd \<circ> snd) (fig_texts ?fig) = ?names"
    using texts by (simp add: plt_show_def fold_set_axis_off_frame)
  moreover have "map ax_image (fig_axes ?fig) =
      map (\<lambda>name. Some (gradient, ''auto'', projr (get_cmap e (Some name) None))) ?names"
  proof (rule nth_equalityI)
    show "length (map ax_image (fig_axes ?fig)) =
        length (map (\<lambda>name. Some (gradient, ''auto'', projr (get_cmap e (Some name) None))) ?names)"
      using len by (simp add: plt_show_def fold_set_axis_off_frame)
  next
    fix i
    assume "i < length (map ax_image (fig_axes ?fig))"
    with len have i: "i < ?n" by (simp add: plt_show_def fold_set_axis_off_frame)
    then have "?zs ! i = (i, ?names ! i)" and "i < length ?zs" by simp_all
    then have "(i, ?names ! i) \<in> set ?zs" by (metis nth_mem)
    moreover have "distinct (map fst ?zs)" by simp
    moreover from i have "i < length (fig_axes ?blank)" by (simp add: subplots_adjust_def)
    ultimately obtain cm where
      "get_cmap e (Some (?names ! i)) None = Inr cm" and
      "ax_image (fig_axes fig' ! i) = Some (gradient, ''auto'', cm)"
      using rows_loop_row [OF run] by blast
    with i len show "map ax_image (fig_axes ?fig) ! i =
        map (\<lambda>name. Some (gradient, ''auto'', projr (get_cmap e (Some name) None))) ?names ! i"
      by (simp add: plt_show_def fold_set_axis_off_frame fold_set_axis_off_image)
  qed
  ultimately show ?thesis using res by blast
qed

lemma plot_colormaps_rows_example:
  "\<exists>fig. plot_colormaps (stub_engine [''X'', ''Y'']) stub_position 8.0 0.4 = Inr fig \<and>
     fig_size fig = (8.0, 0.4 * 2) \<and>
     map ax_image (fig_axes fig) =
       [Some (gradient, ''auto'', \<lparr>cmap_N = 256, cmap_call = (\<lambda>i. i)\<rparr>),
        Some (gradient, ''auto'', \<lparr>cmap_N = 256, cmap_call = (\<lambda>i. i)\<rparr>)] \<and>
     map (snd \<circ> snd) (fig_texts fig) = [''X'', ''Y'']"
proof -
  have 1: "2 \<le> length (list_colormaps (stub_engine [''X'', ''Y'']))"
    by (simp add: list_colormaps_def stub_engine_def)
  have 2: "list_all (\<lambda>name. \<not> isl (get_cmap (stub_engine [''X'', ''Y'']) (Some name) None))
             (list_colormaps (stub_engine [''X'', ''Y'']))"
    by (simp add: list_colormaps_def stub_engine_def)
  from plot_colormaps_rows [OF 1 _ _ 2, of "8.0" "0.4" stub_position] show ?thesis
    by (simp add: list_colormaps_def stub_engine_def)
qed


text \<open>
  C10. \<open>plot_colormaps\<close> returns only when the engine enumerates at least two ramp names.
  With exactly one it fails whatever the width and height; when these are positive, so
  that the figure is created, \<^verbatim>\<open>plt.subplots\<close> hands back a single Axes object and
  iterating over it in \<^verbatim>\<open>zip(axes, cmap_list)\<close> raises \<open>TypeError\<close>.
\<close>

theorem plot_colormaps_needs_two_ramps:
  "(length (list_colormaps e) = 1 \<longrightarrow> isl (plot_colormaps e gp width height)) \<and>
   (length (list_colormaps e) = 1 \<and> 0 < width \<and> 0 < height \<longrightarrow>
      plot_colormaps e gp width height = Inl TypeError) \<and>
   (\<not> isl (plot_colormaps e gp width height) \<longrightarrow> 2 \<le> length (list_colormaps e))"
proof -
  consider "length (list_colormaps e) = 0" | "length (list_colormaps e) = 1"
    | "2 \<le> length (list_colormaps e)" by linarith
  then show ?thesis
  proof cases
    case 1
    then show ?thesis by (simp add: plot_colormaps_def subplots_def)
  next
    case 2
    then have "list_colormaps e \<noteq> []" by auto
    with 2 show ?thesis
      by (auto simp: plot_colormaps_def subplots_def py_iter_def Let_def not_less)
  next
    case 3
    then show ?thesis by simp
  qed
qed

theorem plot_colormaps_needs_two_ramps_witness:
  "isl (plot_colormaps (stub_engine [''X'']) stub_position 8.0 0.4) \<and>
   plot_colormaps (stub_engine [''X'']) stub_position 8.0 0.4 = Inl TypeError \<and>
   \<not> isl (plot_colormaps (stub_engine [''X'', ''Y'']) stub_position 8.0 0.4) \<and>
   2 \<le> length (list_colormaps (stub_engine [''X'', ''Y'']))"
proof -
  have 1: "length (list_colormaps (stub_engine [''X''])) = 1"
    by (simp add: list_colormaps_def stub_engine_def)
  have 2: "\<not> isl (plot_colormaps (stub_engine [''X'', ''Y'']) stub_position 8.0 0.4)"
    by (rule plot_colormaps_succeeds) (simp_all add: list_colormaps_def stub_engine_def)
  have 3: "(0::real) < 8.0" and 4: "(0::real) < 0.4" by simp_all
  from 1 2 3 4
    plot_colormaps_needs_two_ramps [of "stub_engine [''X'']" stub_position "8.0" "0.4"]
    plot_colormaps_needs_two_ramps [of "stub_engine [''X'', ''Y'']" stub_position "8.0" "0.4"]
  show ?thesis by blast
qed

end
